theory Spec2Isabelle
  imports Complex_Main "HOL-Library.Multiset"
begin

section \<open>Satellite deployment scheduling of LDAR-Sim\<close>

text \<open>
  A shallow embedding of \<^verbatim>\<open>methods/deployment/orbit_crew.py\<close> (class Schedule of the
  satellite crew) and of \<^verbatim>\<open>methods/deployment/orbit_company.py\<close> (the company-level
  Schedule). Exceptions are values of a sum type, the mutable Python objects (the Schedule
  instance, the simulation clock, numpy's global random state) are one record that every
  operation receives and returns, and the functions of numpy, shapely, orbit_predictor and of
  \<^verbatim>\<open>utils.generic_functions\<close>, whose code is not part of these two files, are the fields of a
  record of library functions that every operation takes as its first argument.
\<close>

subsection \<open>Data\<close>

datatype error = IndexError | OverflowError | PredictorError

text \<open>
  A Python \<^verbatim>\<open>datetime\<close>: the calendar date as its proleptic Gregorian ordinal
  (\<^verbatim>\<open>date.toordinal()\<close>, between 1 and 3652059) and the time of day.
\<close>

record datetime =
  ordinal :: int
  hour :: nat
  minute :: nat
  second :: nat
  microsecond :: nat

text \<open>A site is a dictionary with the keys \<^verbatim>\<open>lat\<close> and \<^verbatim>\<open>lon\<close> and data the scheduler never reads.\<close>

record site =
  facility_ID :: string
  lat :: rat
  lon :: rat

text \<open>The dictionary that \<^verbatim>\<open>plan_visit\<close> returns.\<close>

record visit_plan =
  plan_site :: site
  go_to_site :: bool
  LDAR_mins :: int
  remaining_mins :: int

text \<open>
  The functions the module imports. \<^verbatim>\<open>np_float16\<close> is \<^verbatim>\<open>np.float16\<close>; \<^verbatim>\<open>contains dp (x, y)\<close>
  is shapely's \<^verbatim>\<open>dp.contains(Point(x, y))\<close>; \<^verbatim>\<open>random_shuffle\<close> is \<^verbatim>\<open>np.random.shuffle\<close>, from
  the state of the generator and the array to the shuffled array and the next state;
  \<^verbatim>\<open>random_choice r n\<close> is the index that \<^verbatim>\<open>np.random.choice(arr, 1)\<close> draws in an array of
  \<^verbatim>\<open>n\<close> entries, with the next state.
\<close>

record ('poly, 'pred, 'r) library =
  np_float16 :: "rat \<Rightarrow> rat"
  contains :: "'poly \<Rightarrow> rat \<times> rat \<Rightarrow> bool"
  geo_idx :: "rat \<Rightarrow> rat list \<Rightarrow> nat"
  quick_cal_daylight :: "datetime \<Rightarrow> rat \<Rightarrow> rat \<Rightarrow> int \<times> int"
  random_shuffle :: "'r \<Rightarrow> nat list \<Rightarrow> nat list \<times> 'r"
  random_choice :: "'r \<Rightarrow> nat \<Rightarrow> nat \<times> 'r"
  get_predictor_from_tle_lines :: "string \<times> string \<Rightarrow> error + 'pred"
  init_orbit_poly :: "'pred \<Rightarrow> datetime \<Rightarrow> datetime \<Rightarrow> nat \<Rightarrow> datetime list \<times> 'poly list"

text \<open>
  The Schedule object together with what it reaches through \<^verbatim>\<open>self.state\<close> and
  \<^verbatim>\<open>self.parameters\<close>, and numpy's global generator. \<^verbatim>\<open>worked_today\<close> is \<^verbatim>\<open>None\<close> while the
  attribute has not been assigned: \<^verbatim>\<open>__init__\<close> does not create it.
\<close>

record ('poly, 'r) schedule =
  work_hours :: nat
  start_hour :: nat
  end_hour :: nat
  cloudcover :: "rat list list list"
  sat_date :: "int list"
  orbit_path :: "'poly list"
  worked_today :: "bool option"
  current_date :: datetime
  current_timestep :: nat
  weather_latitude :: "rat list"
  weather_longitude :: "rat list"
  consider_weather :: bool
  rng :: 'r

text \<open>What \<^verbatim>\<open>__init__\<close> reads from its arguments and from the two input files.\<close>

record 'r init_args =
  TLE_label :: string
  TLE_file_lines :: "string list"
  weather_file_tcc :: "rat list list list"
  t_start_date :: datetime
  t_end_date :: datetime
  t_current_date :: datetime
  t_current_timestep :: nat
  w_latitude :: "rat list"
  w_longitude :: "rat list"
  p_consider_weather :: bool
  np_random :: 'r

subsection \<open>Python and numpy primitives\<close>

text \<open>\<^verbatim>\<open>str.rstrip()\<close>: trailing whitespace removed (the ASCII characters that Python counts as whitespace).\<close>

definition is_space :: "char \<Rightarrow> bool" where
  "is_space c = (c \<in> set [CHR '' '', CHR 0x09, CHR 0x0A, CHR 0x0B, CHR 0x0C, CHR 0x0D,
                           CHR 0x1C, CHR 0x1D, CHR 0x1E, CHR 0x1F])"

definition rstrip :: "string \<Rightarrow> string" where
  "rstrip s = rev (dropWhile is_space (rev s))"

text \<open>\<^verbatim>\<open>xs[i]\<close> for a non-negative index: IndexError out of range.\<close>

definition getitem :: "'a list \<Rightarrow> nat \<Rightarrow> error + 'a" where
  "getitem xs i = (if i < length xs then Inr (xs ! i) else Inl IndexError)"

text \<open>\<^verbatim>\<open>a[ti, i, j]\<close> on a three-axis array, with non-negative indices.\<close>

definition getitem3 :: "'a list list list \<Rightarrow> nat \<Rightarrow> nat \<Rightarrow> nat \<Rightarrow> error + 'a" where
  "getitem3 a ti i j =
     (case getitem a ti of Inl e \<Rightarrow> Inl e
      | Inr plane \<Rightarrow> (case getitem plane i of Inl e \<Rightarrow> Inl e
                       | Inr row \<Rightarrow> getitem row j))"

text \<open>\<^verbatim>\<open>round(x)\<close> with one argument: to the nearest integer, a tie to the even one.\<close>

definition py_round :: "rat \<Rightarrow> int" where
  "py_round x =
     (let f = \<lfloor>x\<rfloor>; d = x - of_int f
      in if d < 1 / 2 then f else if 1 / 2 < d then f + 1
         else if even f then f else f + 1)"

text \<open>\<^verbatim>\<open>int(x)\<close>: truncation towards zero.\<close>

definition py_int :: "rat \<Rightarrow> int" where
  "py_int x = (if 0 \<le> x then \<lfloor>x\<rfloor> else \<lceil>x\<rceil>)"

text \<open>
  \<^verbatim>\<open>arr[:k] = v\<close> on a one-axis array: the stop of the slice counts from the end when it is
  negative and is clipped to the array.
\<close>

definition slice_stop :: "nat \<Rightarrow> int \<Rightarrow> nat" where
  "slice_stop n k = (if k < 0 then nat (int n + k) else min n (nat k))"

definition assign_prefix :: "'a list \<Rightarrow> int \<Rightarrow> 'a \<Rightarrow> 'a list" where
  "assign_prefix arr k v =
     replicate (slice_stop (length arr) k) v @ drop (slice_stop (length arr) k) arr"

text \<open>\<^verbatim>\<open>path[sat_date == date]\<close>: a boolean mask whose length is not the array's is an IndexError.\<close>

definition mask_select :: "'a list \<Rightarrow> bool list \<Rightarrow> error + 'a list" where
  "mask_select path flags =
     (if length flags = length path
      then Inr (map fst (filter snd (zip path flags)))
      else Inl IndexError)"

text \<open>
  \<^verbatim>\<open>d + timedelta(minutes=m)\<close>: OverflowError when the timedelta has more than 999999999 days
  or the sum leaves the years 1 to 9999.
\<close>

definition add_minutes :: "datetime \<Rightarrow> int \<Rightarrow> error + datetime" where
  "add_minutes d m =
     (if m div 1440 < - 999999999 \<or> 999999999 < m div 1440 then Inl OverflowError
      else let tm = int (hour d) * 60 + int (minute d) + m;
               day = ordinal d + tm div 1440
           in if day < 1 \<or> 3652059 < day then Inl OverflowError
              else Inr (d\<lparr>ordinal := day, hour := nat ((tm mod 1440) div 60),
                          minute := nat (tm mod 60)\<rparr>))"

subsection \<open>The crew's Schedule (orbit\_crew.py)\<close>

definition plan_visit :: "site \<Rightarrow> visit_plan" where
  "plan_visit s = \<lparr>plan_site = s, go_to_site = True, LDAR_mins = 0, remaining_mins = 0\<rparr>"

text \<open>The inner loop of \<^verbatim>\<open>calc_viewable_sites\<close>: the polygons in turn, left at the first that contains the point.\<close>

fun seen_by :: "('poly, 'pred, 'r) library \<Rightarrow> 'poly list \<Rightarrow> rat \<times> rat \<Rightarrow> bool" where
  "seen_by L [] PT = False"
| "seen_by L (dp # DP) PT = (if contains L dp PT then True else seen_by L DP PT)"

text \<open>The outer loop, with the list \<^verbatim>\<open>valid_site\<close> it appends to.\<close>

fun scan_sites :: "('poly, 'pred, 'r) library \<Rightarrow> 'poly list \<Rightarrow> site list \<Rightarrow> site list \<Rightarrow> site list" where
  "scan_sites L DP [] valid_site = valid_site"
| "scan_sites L DP (s # site_pool) valid_site =
     (let fac_lat = np_float16 L (lat s);
          fac_lon = np_float16 L (lon s);
          PT = (fac_lon, fac_lat)
      in scan_sites L DP site_pool (if seen_by L DP PT then valid_site @ [s] else valid_site))"

definition calc_viewable_sites ::
  "('poly, 'pred, 'r) library \<Rightarrow> ('poly, 'r) schedule \<Rightarrow> site list \<Rightarrow> error + site list" where
  "calc_viewable_sites L S site_pool =
     (let date = ordinal (current_date S)
      in case mask_select (orbit_path S) (map (\<lambda>d. d = date) (sat_date S)) of
           Inl e \<Rightarrow> Inl e
         | Inr DP \<Rightarrow> Inr (scan_sites L DP site_pool []))"

text \<open>
  The cloud part of \<^verbatim>\<open>assess_weather\<close> once the percentage is known: the array of 100 zeros
  whose first \<^verbatim>\<open>CC\<close> entries are set to one, and the signal read from the entry drawn in the
  shuffled array.
\<close>

definition indicator_array :: "int \<Rightarrow> nat list" where
  "indicator_array CC = assign_prefix (replicate 100 0) CC 1"

definition cloud_signal :: "nat list \<Rightarrow> nat \<Rightarrow> bool" where
  "cloud_signal arr i = (arr ! i = 0)"

definition assess_weather ::
  "('poly, 'pred, 'r) library \<Rightarrow> ('poly, 'r) schedule \<Rightarrow> site
     \<Rightarrow> error + ((bool \<times> bool) \<times> ('poly, 'r) schedule)" where
  "assess_weather L S s =
     (let site_lat = np_float16 L (lat s);
          site_lon = np_float16 L (lon s);
          lat_idx = geo_idx L site_lat (weather_latitude S);
          lon_idx = geo_idx L site_lon (weather_longitude S);
          ti = current_timestep S;
          date = current_date S;
          (sr, ss) = quick_cal_daylight L date site_lat site_lon;
          sat_daylight = (sr \<le> int (hour (current_date S)) \<and> int (hour (current_date S)) \<le> ss)
      in case getitem3 (cloudcover S) ti lat_idx lon_idx of
           Inl e \<Rightarrow> Inl e
         | Inr c \<Rightarrow>
             (let CC = py_round (c * 100);
                  (arr, r1) = random_shuffle L (rng S) (indicator_array CC);
                  (i, r2) = random_choice L r1 (length arr);
                  sat_cc = cloud_signal arr i
              in Inr ((sat_daylight, sat_cc), S\<lparr>rng := r2\<rparr>)))"

text \<open>
  The loop of \<^verbatim>\<open>start_day\<close> over the viewable sites. The state is returned also when
  \<^verbatim>\<open>assess_weather\<close> raises, as the Python objects keep what was assigned before.
\<close>

fun visit_sites ::
  "('poly, 'pred, 'r) library \<Rightarrow> ('poly, 'r) schedule \<Rightarrow> site list \<Rightarrow> visit_plan list
     \<Rightarrow> ('poly, 'r) schedule \<times> (error + visit_plan list)" where
  "visit_sites L S [] daily_site_plans = (S, Inr daily_site_plans)"
| "visit_sites L S (s # viewable_sites) daily_site_plans =
     (case assess_weather L S s of
        Inl e \<Rightarrow> (S, Inl e)
      | Inr ((sat_dl, sat_cc), S') \<Rightarrow>
          visit_sites L S' viewable_sites
            (if (sat_dl \<and> sat_cc) \<or> \<not> consider_weather S'
             then daily_site_plans @ [plan_visit s] else daily_site_plans))"

definition start_day ::
  "('poly, 'pred, 'r) library \<Rightarrow> ('poly, 'r) schedule \<Rightarrow> site list
     \<Rightarrow> ('poly, 'r) schedule \<times> (error + visit_plan list)" where
  "start_day L S site_pool =
     (let S1 = S\<lparr>current_date := (current_date S)\<lparr>hour := 1\<rparr>\<rparr>
      in case calc_viewable_sites L S1 site_pool of
           Inl e \<Rightarrow> (S1, Inl e)
         | Inr viewable_sites \<Rightarrow>
             if length viewable_sites = 0
             then (S1\<lparr>worked_today := Some False\<rparr>, Inr [])
             else visit_sites L S1 viewable_sites [])"

text \<open>The first loop of \<^verbatim>\<open>get_orbit_predictor\<close>: the lines of the file, stripped.\<close>

definition read_TLEs :: "string list \<Rightarrow> string list" where
  "read_TLEs file_lines = map rstrip file_lines"

text \<open>The second loop: the index of the first line equal to the label, the length when there is none.\<close>

fun find_label :: "string list \<Rightarrow> string \<Rightarrow> nat \<Rightarrow> nat" where
  "find_label [] label i = i"
| "find_label (x # TLEs) label i = (if x = label then i else find_label TLEs label (i + 1))"

definition get_orbit_predictor ::
  "('poly, 'pred, 'r) library \<Rightarrow> string list \<Rightarrow> string \<Rightarrow> error + 'pred" where
  "get_orbit_predictor L file_lines label =
     (let TLEs = read_TLEs file_lines;
          i = find_label TLEs label 0
      in case getitem TLEs (i + 1) of
           Inl e \<Rightarrow> Inl e
         | Inr l1 \<Rightarrow> (case getitem TLEs (i + 2) of
                       Inl e \<Rightarrow> Inl e
                     | Inr l2 \<Rightarrow> get_predictor_from_tle_lines L (l1, l2)))"

definition get_orbit_path ::
  "('poly, 'pred, 'r) library \<Rightarrow> 'pred \<Rightarrow> datetime \<Rightarrow> datetime \<Rightarrow> int list \<times> 'poly list" where
  "get_orbit_path L predictor T1 T2 =
     (let (sat_datetime, path) = init_orbit_poly L predictor T1 T2 15
      in (map ordinal sat_datetime, path))"

text \<open>\<^verbatim>\<open>__init__\<close>: the Schedule object, or the exception that leaves none.\<close>

definition init_schedule ::
  "('poly, 'pred, 'r) library \<Rightarrow> 'r init_args \<Rightarrow> error + ('poly, 'r) schedule" where
  "init_schedule L A =
     (case get_orbit_predictor L (TLE_file_lines A) (TLE_label A) of
        Inl e \<Rightarrow> Inl e
      | Inr predictor \<Rightarrow>
          (let (dates, path) = get_orbit_path L predictor (t_start_date A) (t_end_date A)
           in Inr \<lparr>work_hours = 24, start_hour = 0, end_hour = 23,
                   cloudcover = weather_file_tcc A,
                   sat_date = dates, orbit_path = path,
                   worked_today = None,
                   current_date = t_current_date A,
                   current_timestep = t_current_timestep A,
                   weather_latitude = w_latitude A,
                   weather_longitude = w_longitude A,
                   consider_weather = p_consider_weather A,
                   rng = np_random A\<rparr>))"

definition update_schedule ::
  "('poly, 'r) schedule \<Rightarrow> rat \<Rightarrow> error + ('poly, 'r) schedule" where
  "update_schedule S work_mins =
     (case add_minutes (current_date S) (py_int work_mins) of
        Inl e \<Rightarrow> Inl e
      | Inr d \<Rightarrow> Inr (S\<lparr>current_date := d\<rparr>))"

definition end_day :: "('poly, 'r) schedule \<Rightarrow> site list \<Rightarrow> visit_plan list \<Rightarrow> ('poly, 'r) schedule" where
  "end_day S site_pool itinerary = S"

subsection \<open>The company's Schedule (orbit\_company.py)\<close>

definition get_due_sites :: "site list \<Rightarrow> site list" where
  "get_due_sites site_pool = site_pool"

definition get_working_crews :: "site list \<Rightarrow> nat \<Rightarrow> nat" where
  "get_working_crews site_pool n_crews = n_crews"

definition get_crew_site_list :: "site list \<Rightarrow> nat \<Rightarrow> nat \<Rightarrow> 'crew list option \<Rightarrow> site list" where
  "get_crew_site_list site_pool crew_num n_crews crews = site_pool"

subsection \<open>Notions the properties are stated with\<close>

text \<open>
  What numpy guarantees of its generator: a shuffle permutes the array it is given, and a
  choice in a non-empty array draws one of its positions.
\<close>

definition rng_ok :: "('poly, 'pred, 'r) library \<Rightarrow> bool" where
  "rng_ok L = ((\<forall>r xs. mset (fst (random_shuffle L r xs)) = mset xs)
             \<and> (\<forall>r n. 0 < n \<longrightarrow> fst (random_choice L r n) < n))"

text \<open>The cell of the cloud grid that \<^verbatim>\<open>assess_weather\<close> reads for a site.\<close>

definition cloud_lookup :: "('poly, 'pred, 'r) library \<Rightarrow> ('poly, 'r) schedule \<Rightarrow> site \<Rightarrow> error + rat" where
  "cloud_lookup L S s =
     getitem3 (cloudcover S) (current_timestep S)
       (geo_idx L (np_float16 L (lat s)) (weather_latitude S))
       (geo_idx L (np_float16 L (lon s)) (weather_longitude S))"

text \<open>The state of the generator after the shuffle and the choice of one \<^verbatim>\<open>assess_weather\<close> on percentage \<^verbatim>\<open>CC\<close>.\<close>

definition after_draws :: "('poly, 'pred, 'r) library \<Rightarrow> 'r \<Rightarrow> int \<Rightarrow> 'r" where
  "after_draws L r CC =
     (let (arr, r1) = random_shuffle L r (indicator_array CC)
      in snd (random_choice L r1 (length arr)))"






text \<open>
  \<^verbatim>\<open>assess_weather\<close> called once for each site of a list, in order, each call on the state the
  one before left; the first exception ends it.
\<close>

fun assess_each ::
  "('poly, 'pred, 'r) library \<Rightarrow> ('poly, 'r) schedule \<Rightarrow> site list
     \<Rightarrow> ('poly, 'r) schedule \<times> (error + (bool \<times> bool) list)" where
  "assess_each L S [] = (S, Inr [])"
| "assess_each L S (s # sites) =
     (case assess_weather L S s of
        Inl e \<Rightarrow> (S, Inl e)
      | Inr (signals, S') \<Rightarrow>
          (case assess_each L S' sites of
             (S'', Inl e) \<Rightarrow> (S'', Inl e)
           | (S'', Inr rest) \<Rightarrow> (S'', Inr (signals # rest))))"

subsection \<open>A small scenario\<close>

text \<open>
  Polygons are axis-parallel boxes \<^verbatim>\<open>(x0, y0, x1, y1)\<close> that contain their interior, the reduction
  of precision rounds down to a quarter of a degree, the sun is up from 6 to 18, and the
  generator is a counter: a shuffle rotates the array by it, a choice takes it modulo the size.
\<close>

definition demo_library :: "(rat \<times> rat \<times> rat \<times> rat, string \<times> string, nat) library" where
  "demo_library =
     \<lparr>np_float16 = (\<lambda>x. of_int \<lfloor>x * 4\<rfloor> / 4),
      contains = (\<lambda>(x0, y0, x1, y1) (x, y). x0 < x \<and> x < x1 \<and> y0 < y \<and> y < y1),
      geo_idx = (\<lambda>x xs. 0),
      quick_cal_daylight = (\<lambda>d la lo. (6, 18)),
      random_shuffle = (\<lambda>r xs. (rotate r xs, r + 1)),
      random_choice = (\<lambda>r n. (r mod n, r + 1)),
      get_predictor_from_tle_lines = (\<lambda>p. Inr p),
      init_orbit_poly = (\<lambda>p T1 T2 step. ([T1, T1, T2], [(0, 0, 2, 2), (10, 10, 12, 12), (0, 0, 2, 2)]))\<rparr>"

definition demo_day :: "int \<Rightarrow> datetime" where
  "demo_day n = \<lparr>ordinal = n, hour = 0, minute = 30, second = 0, microsecond = 0\<rparr>"

definition demo_args :: "rat \<Rightarrow> bool \<Rightarrow> nat init_args" where
  "demo_args c weather =
     \<lparr>TLE_label = ''SAT-A'',
      TLE_file_lines = [''SAT-B'', ''1 b'', ''2 b'', ''SAT-A  '', ''1 a'', ''2 a''],
      weather_file_tcc = [[[c]]],
      t_start_date = demo_day 738000,
      t_end_date = demo_day 738001,
      t_current_date = demo_day 738000,
      t_current_timestep = 0,
      w_latitude = [1],
      w_longitude = [1],
      p_consider_weather = weather,
      np_random = 7\<rparr>"

definition demo_schedule :: "rat \<Rightarrow> bool \<Rightarrow> (rat \<times> rat \<times> rat \<times> rat, nat) schedule" where
  "demo_schedule c weather =
     \<lparr>work_hours = 24, start_hour = 0, end_hour = 23,
      cloudcover = [[[c]]],
      sat_date = [738000, 738000, 738001],
      orbit_path = [(0, 0, 2, 2), (10, 10, 12, 12), (0, 0, 2, 2)],
      worked_today = None,
      current_date = demo_day 738000,
      current_timestep = 0,
      weather_latitude = [1],
      weather_longitude = [1],
      consider_weather = weather,
      rng = 7\<rparr>"

definition site_A :: site where
  "site_A = \<lparr>facility_ID = ''A'', lat = 1, lon = 3 / 2\<rparr>"

definition site_B :: site where
  "site_B = \<lparr>facility_ID = ''B'', lat = 5, lon = 5\<rparr>"

definition site_C :: site where
  "site_C = \<lparr>facility_ID = ''C'', lat = 11, lon = 45 / 4\<rparr>"


section \<open>Properties\<close>

subsection \<open>Visibility\<close>

lemma seen_by_iff: "seen_by L DP PT = (\<exists>dp\<in>set DP. contains L dp PT)"
  by (induction DP) auto

lemma scan_sites_filter:
  "scan_sites L DP site_pool valid_site =
     valid_site @ filter (\<lambda>s. seen_by L DP (np_float16 L (lon s), np_float16 L (lat s))) site_pool"
  by (induction site_pool arbitrary: valid_site) (auto simp: Let_def)

lemma masked_set:
  assumes "length dates = length path"
  shows "set (map fst (filter snd (zip path (map P dates)))) =
         {path ! k | k. k < length path \<and> P (dates ! k)}"
proof -
  have "set (map fst (filter snd (zip path (map P dates)))) =
        fst ` {x \<in> set (zip path (map P dates)). snd x}"
    by simp
  also have "\<dots> = {path ! k | k. k < length path \<and> P (dates ! k)}"
    using assms by (force simp: set_zip image_iff)
  finally show ?thesis .
qed

text \<open>
  Claim C1. When the dates and the polygons of the ground track are parallel arrays,
  \<^verbatim>\<open>calc_viewable_sites\<close> returns the sites of the pool, in the order of the pool, whose
  reduced coordinates lie in a polygon recorded for the ordinal of the current date: a
  filter of the pool, hence the empty list when no site is covered.
\<close>

theorem calc_viewable_sites_exact:
  assumes "length (sat_date S) = length (orbit_path S)"
  shows "calc_viewable_sites L S site_pool =
           Inr (filter (\<lambda>s. \<exists>k < length (orbit_path S).
                          sat_date S ! k = ordinal (current_date S) \<and>
                          contains L (orbit_path S ! k) (np_float16 L (lon s), np_float16 L (lat s)))
                       site_pool)"
proof -
  let ?DP = "map fst (filter snd (zip (orbit_path S) (map (\<lambda>d. d = ordinal (current_date S)) (sat_date S))))"
  have sel: "mask_select (orbit_path S) (map (\<lambda>d. d = ordinal (current_date S)) (sat_date S)) = Inr ?DP"
    using assms by (simp add: mask_select_def)
  have mem: "seen_by L ?DP PT \<longleftrightarrow>
        (\<exists>k < length (orbit_path S). sat_date S ! k = ordinal (current_date S) \<and>
             contains L (orbit_path S ! k) PT)" for PT
    unfolding seen_by_iff masked_set [OF assms] by auto
  show ?thesis
    unfolding calc_viewable_sites_def Let_def sel
    by (simp add: scan_sites_filter mem)
qed

theorem calc_viewable_sites_exact_witness:
  "length (sat_date (demo_schedule 0 False)) = length (orbit_path (demo_schedule 0 False)) \<and>
   calc_viewable_sites demo_library (demo_schedule 0 False) [site_A, site_B, site_C] = Inr [site_A, site_C] \<and>
   calc_viewable_sites demo_library (demo_schedule 0 False) [site_B] = Inr []"
proof -
  have len: "length (sat_date (demo_schedule 0 False)) = length (orbit_path (demo_schedule 0 False))"
    by (simp add: demo_schedule_def)
  show ?thesis
    using len calc_viewable_sites_exact [OF len, of demo_library "[site_A, site_B, site_C]"]
      calc_viewable_sites_exact [OF len, of demo_library "[site_B]"]
    by (simp add: demo_schedule_def demo_library_def demo_day_def site_A_def site_B_def site_C_def
        Ex_less_Suc)
qed

subsection \<open>The cloud draw\<close>

lemma py_round_of_int: "py_round (of_int n) = n"
  by (simp add: py_round_def)



lemma indicator_array_eq:
  assumes "0 \<le> CC" "CC \<le> 100"
  shows "indicator_array CC = replicate (nat CC) 1 @ replicate (100 - nat CC) 0"
proof -
  have "slice_stop 100 CC = nat CC"
    using assms by (simp add: slice_stop_def)
  then show ?thesis
    by (simp add: indicator_array_def assign_prefix_def)
qed


lemma assess_weather_cloud:
  assumes "cloud_lookup L S s = Inr c"
  shows "\<exists>dl. assess_weather L S s =
     Inr ((dl, cloud_signal (fst (random_shuffle L (rng S) (indicator_array (py_round (c * 100)))))
                 (fst (random_choice L (snd (random_shuffle L (rng S) (indicator_array (py_round (c * 100)))))
                        (length (fst (random_shuffle L (rng S) (indicator_array (py_round (c * 100))))))))),
          S\<lparr>rng := after_draws L (rng S) (py_round (c * 100))\<rparr>)"
  using assms
  by (simp add: assess_weather_def cloud_lookup_def after_draws_def Let_def split_beta)

lemma drawn_entry:
  assumes ok: "rng_ok L"
  shows "fst (random_shuffle L r xs) ! fst (random_choice L r' (length (fst (random_shuffle L r xs)))) \<in> set xs \<or> xs = []"
proof (cases "xs = []")
  case True then show ?thesis by simp
next
  case False
  let ?arr = "fst (random_shuffle L r xs)"
  have m: "mset ?arr = mset xs" using ok by (simp add: rng_ok_def)
  then have len: "length ?arr = length xs" by (metis size_mset)
  with False have "0 < length ?arr" by simp
  then have "fst (random_choice L r' (length ?arr)) < length ?arr"
    using ok by (simp add: rng_ok_def)
  then have "?arr ! fst (random_choice L r' (length ?arr)) \<in> set ?arr" by simp
  also have "set ?arr = set xs" using m by (metis set_mset_mset)
  finally show ?thesis by simp
qed

lemma mset_rotate_eq: "mset (rotate n xs) = mset xs"
proof -
  have "mset (take k xs) + mset (drop k xs) = mset xs" for k
    by (metis append_take_drop_id mset_append)
  then show ?thesis
    by (simp add: rotate_drop_take union_commute)
qed










text \<open>
  Claim C4. When the cell read for the site is 0, \<^verbatim>\<open>assess_weather\<close> returns the cloud signal
  true (not obscured) from every state of a generator that shuffles by permuting and draws
  a position of the array.
\<close>

theorem clear_sky_never_obscured:
  assumes "rng_ok L" and "cloud_lookup L S s = Inr 0"
  shows "\<exists>dl S'. assess_weather L S s = Inr ((dl, True), S')"
proof -
  have ind: "indicator_array (py_round (0 * 100)) = replicate 100 0"
    using indicator_array_eq [of 0] py_round_of_int [of 0] by simp
  have "cloud_signal (fst (random_shuffle L (rng S) (replicate 100 0)))
          (fst (random_choice L (snd (random_shuffle L (rng S) (replicate 100 0)))
              (length (fst (random_shuffle L (rng S) (replicate 100 0))))))"
    using drawn_entry [OF assms(1), of "rng S" "replicate 100 0"]
    by (simp add: cloud_signal_def)
  with assess_weather_cloud [OF assms(2)] show ?thesis
    unfolding ind by auto
qed

theorem clear_sky_never_obscured_witness:
  "rng_ok demo_library \<and> cloud_lookup demo_library (demo_schedule 0 True) site_A = Inr 0 \<and>
   (\<exists>dl S'. assess_weather demo_library (demo_schedule 0 True) site_A = Inr ((dl, True), S'))"
proof -
  have ok: "rng_ok demo_library"
    by (simp add: rng_ok_def demo_library_def mset_rotate_eq)
  have look: "cloud_lookup demo_library (demo_schedule 0 True) site_A = Inr 0"
    by (simp add: cloud_lookup_def demo_library_def demo_schedule_def getitem3_def getitem_def)
  show ?thesis
    using ok look clear_sky_never_obscured [OF ok look] by simp
qed

text \<open>
  Claim C5. When the cell read for the site is 1, \<^verbatim>\<open>assess_weather\<close> returns the cloud signal
  false (obscured) from every state of such a generator.
\<close>

theorem overcast_always_obscured:
  assumes "rng_ok L" and "cloud_lookup L S s = Inr 1"
  shows "\<exists>dl S'. assess_weather L S s = Inr ((dl, False), S')"
proof -
  have ind: "indicator_array (py_round (1 * 100)) = replicate 100 1"
    using indicator_array_eq [of 100] py_round_of_int [of 100] by simp
  have "\<not> cloud_signal (fst (random_shuffle L (rng S) (replicate 100 1)))
          (fst (random_choice L (snd (random_shuffle L (rng S) (replicate 100 1)))
              (length (fst (random_shuffle L (rng S) (replicate 100 1))))))"
    using drawn_entry [OF assms(1), of "rng S" "replicate 100 1"]
    by (simp add: cloud_signal_def)
  with assess_weather_cloud [OF assms(2)] show ?thesis
    unfolding ind by auto
qed

theorem overcast_always_obscured_witness:
  "rng_ok demo_library \<and> cloud_lookup demo_library (demo_schedule 1 True) site_A = Inr 1 \<and>
   (\<exists>dl S'. assess_weather demo_library (demo_schedule 1 True) site_A = Inr ((dl, False), S'))"
proof -
  have ok: "rng_ok demo_library"
    by (simp add: rng_ok_def demo_library_def mset_rotate_eq)
  have look: "cloud_lookup demo_library (demo_schedule 1 True) site_A = Inr 1"
    by (simp add: cloud_lookup_def demo_library_def demo_schedule_def getitem3_def getitem_def)
  show ?thesis
    using ok look overcast_always_obscured [OF ok look] by simp
qed

subsection \<open>The day\<close>

lemma calc_viewable_sites_hour:
  "calc_viewable_sites L (S\<lparr>current_date := (current_date S)\<lparr>hour := h\<rparr>\<rparr>) site_pool =
   calc_viewable_sites L S site_pool"
  by (simp add: calc_viewable_sites_def)

lemma cloud_lookup_frame:
  "cloud_lookup L (S\<lparr>rng := r\<rparr>) s = cloud_lookup L S s"
  "cloud_lookup L (S\<lparr>current_date := d\<rparr>) s = cloud_lookup L S s"
  by (simp_all add: cloud_lookup_def)

lemma assess_weather_error:
  "cloud_lookup L S s = Inl e \<Longrightarrow> assess_weather L S s = Inl e"
  by (simp add: assess_weather_def cloud_lookup_def Let_def split_beta)

lemma assess_weather_cases:
  "(\<exists>e. cloud_lookup L S s = Inl e \<and> assess_weather L S s = Inl e) \<or>
   (\<exists>c signals. cloud_lookup L S s = Inr c \<and>
      assess_weather L S s = Inr (signals, S\<lparr>rng := after_draws L (rng S) (py_round (c * 100))\<rparr>))"
proof (cases "cloud_lookup L S s")
  case (Inl e)
  then show ?thesis by (simp add: assess_weather_error)
next
  case (Inr c)
  then show ?thesis using assess_weather_cloud [OF Inr] by auto
qed

lemma visit_sites_assess_each:
  "\<not> consider_weather S \<Longrightarrow>
   visit_sites L S sites plans =
     (case assess_each L S sites of
        (S', Inl e) \<Rightarrow> (S', Inl e)
      | (S', Inr signals) \<Rightarrow> (S', Inr (plans @ map plan_visit sites)))"
proof (induction sites arbitrary: S plans)
  case Nil
  then show ?case by simp
next
  case (Cons s sites)
  from assess_weather_cases [of L S s] show ?case
  proof (elim disjE exE conjE)
    fix e assume "assess_weather L S s = Inl e"
    then show ?thesis by simp
  next
    fix c signals
    assume aw: "assess_weather L S s =
        Inr (signals, S\<lparr>rng := after_draws L (rng S) (py_round (c * 100))\<rparr>)"
    let ?S = "S\<lparr>rng := after_draws L (rng S) (py_round (c * 100))\<rparr>"
    have nw: "\<not> consider_weather ?S" using Cons.prems by simp
    obtain dl cc where sg: "signals = (dl, cc)" by (cases signals)
    show ?thesis
      using Cons.IH [OF nw, of "plans @ [plan_visit s]"] nw
      by (simp add: aw sg split: prod.splits sum.splits)
  qed
qed

lemma assess_each_frame:
  "assess_each L S sites = (S', res) \<Longrightarrow>
     worked_today S' = worked_today S \<and> current_date S' = current_date S \<and>
     consider_weather S' = consider_weather S"
proof (induction sites arbitrary: S S' res)
  case Nil
  then show ?case by simp
next
  case (Cons s sites)
  from assess_weather_cases [of L S s] show ?case
  proof (elim disjE exE conjE)
    fix e assume "assess_weather L S s = Inl e"
    with Cons.prems show ?thesis by simp
  next
    fix c signals
    assume aw: "assess_weather L S s =
        Inr (signals, S\<lparr>rng := after_draws L (rng S) (py_round (c * 100))\<rparr>)"
    let ?S = "S\<lparr>rng := after_draws L (rng S) (py_round (c * 100))\<rparr>"
    obtain S2 r2 where ae: "assess_each L ?S sites = (S2, r2)" by (cases "assess_each L ?S sites")
    from Cons.prems have "S' = S2"
      by (simp add: aw ae split: sum.splits)
    with Cons.IH [OF ae] show ?thesis by simp
  qed
qed

lemma assess_each_total:
  "\<forall>s\<in>set sites. \<exists>c. cloud_lookup L S s = Inr c \<Longrightarrow>
     \<exists>S' signals. assess_each L S sites = (S', Inr signals) \<and> length signals = length sites"
proof (induction sites arbitrary: S)
  case Nil
  then show ?case by simp
next
  case (Cons s sites)
  then obtain c where c: "cloud_lookup L S s = Inr c" by auto
  from assess_weather_cloud [OF c] obtain dl cc where
    aw: "assess_weather L S s = Inr ((dl, cc), S\<lparr>rng := after_draws L (rng S) (py_round (c * 100))\<rparr>)"
    by blast
  let ?S = "S\<lparr>rng := after_draws L (rng S) (py_round (c * 100))\<rparr>"
  have "\<forall>s\<in>set sites. \<exists>c. cloud_lookup L ?S s = Inr c"
    using Cons.prems by (simp add: cloud_lookup_frame)
  from Cons.IH [OF this] obtain S' signals where
    "assess_each L ?S sites = (S', Inr signals)" "length signals = length sites" by blast
  then show ?case by (simp add: aw)
qed

lemma start_day_unfold:
  assumes "calc_viewable_sites L S site_pool = Inr viewable"
  shows "start_day L S site_pool =
     (if viewable = []
      then (S\<lparr>current_date := (current_date S)\<lparr>hour := 1\<rparr>, worked_today := Some False\<rparr>, Inr [])
      else visit_sites L (S\<lparr>current_date := (current_date S)\<lparr>hour := 1\<rparr>\<rparr>) viewable [])"
  using assms by (simp add: start_day_def Let_def calc_viewable_sites_hour)

lemma start_day_error:
  assumes "calc_viewable_sites L S site_pool = Inl e"
  shows "start_day L S site_pool = (S\<lparr>current_date := (current_date S)\<lparr>hour := 1\<rparr>\<rparr>, Inl e)"
  using assms by (simp add: start_day_def Let_def calc_viewable_sites_hour)

lemma visit_sites_from_empty:
  assumes "\<not> consider_weather S"
  shows "visit_sites L S sites [] =
     (case assess_each L S sites of
        (S', Inl e) \<Rightarrow> (S', Inl e)
      | (S', Inr signals) \<Rightarrow> (S', Inr (map plan_visit sites)))"
  using visit_sites_assess_each [OF assms, of L sites "[]"]
  by (simp split: prod.splits sum.splits)

lemma visit_sites_frame:
  "visit_sites L S sites plans = (S', res) \<Longrightarrow>
     worked_today S' = worked_today S \<and> current_date S' = current_date S"
proof (induction sites arbitrary: S plans)
  case Nil
  then show ?case by auto
next
  case (Cons s sites)
  from assess_weather_cases [of L S s] show ?case
  proof (elim disjE exE conjE)
    fix e assume "assess_weather L S s = Inl e"
    with Cons.prems show ?thesis by auto
  next
    fix c signals
    assume aw: "assess_weather L S s =
        Inr (signals, S\<lparr>rng := after_draws L (rng S) (py_round (c * 100))\<rparr>)"
    obtain dl cc where sg: "signals = (dl, cc)" by (cases signals)
    from Cons.prems have
      "\<exists>plans'. visit_sites L (S\<lparr>rng := after_draws L (rng S) (py_round (c * 100))\<rparr>) sites plans' = (S', res)"
      by (auto simp: aw sg split: if_splits)
    then obtain plans' where
      "visit_sites L (S\<lparr>rng := after_draws L (rng S) (py_round (c * 100))\<rparr>) sites plans' = (S', res)" ..
    from Cons.IH [OF this] show ?thesis by simp
  qed
qed

lemma demo_viewable:
  "calc_viewable_sites demo_library (demo_schedule c w) [site_A, site_B, site_C] = Inr [site_A, site_C]"
  "calc_viewable_sites demo_library (demo_schedule c w) [site_B] = Inr []"
  "calc_viewable_sites demo_library (demo_schedule c w) [site_A] = Inr [site_A]"
  by (simp_all add: calc_viewable_sites_def mask_select_def demo_schedule_def demo_library_def
      demo_day_def site_A_def site_B_def site_C_def Let_def)

lemma demo_cloud_lookup: "cloud_lookup demo_library (demo_schedule c w) s = Inr c"
  by (simp add: cloud_lookup_def demo_library_def demo_schedule_def getitem3_def getitem_def)

lemma demo_after_draws: "after_draws demo_library r CC = r + 2"
  by (simp add: after_draws_def demo_library_def)

text \<open>
  Claim C3. With \<^verbatim>\<open>consider_weather\<close> false, an itinerary that \<^verbatim>\<open>start_day\<close> returns is the
  list of the plans of the viewable sites, in their order, whatever the two signals are; it
  is returned whenever the cloud grid has a cell for every viewable site (otherwise the
  lookup of \<^verbatim>\<open>assess_weather\<close> raises); and every plan has \<^verbatim>\<open>go_to_site\<close> true and both
  minute fields 0.
\<close>

theorem start_day_without_weather:
  assumes "\<not> consider_weather S"
    and "calc_viewable_sites L S site_pool = Inr viewable"
  shows "(\<forall>plans. snd (start_day L S site_pool) = Inr plans \<longrightarrow> plans = map plan_visit viewable)
       \<and> ((\<forall>s\<in>set viewable. \<exists>c. cloud_lookup L S s = Inr c) \<longrightarrow>
             snd (start_day L S site_pool) = Inr (map plan_visit viewable))
       \<and> map plan_site (map plan_visit viewable) = viewable
       \<and> (\<forall>p\<in>set (map plan_visit viewable).
             go_to_site p \<and> LDAR_mins p = 0 \<and> remaining_mins p = 0)"
proof (intro conjI)
  let ?S1 = "S\<lparr>current_date := (current_date S)\<lparr>hour := 1\<rparr>\<rparr>"
  have nw: "\<not> consider_weather ?S1" using assms(1) by simp
  have sd: "start_day L S site_pool =
     (if viewable = [] then (?S1\<lparr>worked_today := Some False\<rparr>, Inr [])
      else (case assess_each L ?S1 viewable of
              (S', Inl e) \<Rightarrow> (S', Inl e)
            | (S', Inr signals) \<Rightarrow> (S', Inr (map plan_visit viewable))))"
    using visit_sites_from_empty [OF nw, of L viewable]
    by (simp add: start_day_unfold [OF assms(2)])
  show "\<forall>plans. snd (start_day L S site_pool) = Inr plans \<longrightarrow> plans = map plan_visit viewable"
    unfolding sd by (auto split: prod.splits sum.splits)
  show "(\<forall>s\<in>set viewable. \<exists>c. cloud_lookup L S s = Inr c) \<longrightarrow>
             snd (start_day L S site_pool) = Inr (map plan_visit viewable)"
  proof
    assume "\<forall>s\<in>set viewable. \<exists>c. cloud_lookup L S s = Inr c"
    then have "\<forall>s\<in>set viewable. \<exists>c. cloud_lookup L ?S1 s = Inr c"
      by (simp add: cloud_lookup_frame)
    from assess_each_total [OF this] obtain S' signals where
      "assess_each L ?S1 viewable = (S', Inr signals)" by blast
    then show "snd (start_day L S site_pool) = Inr (map plan_visit viewable)"
      unfolding sd by simp
  qed
  show "map plan_site (map plan_visit viewable) = viewable"
    by (induction viewable) (simp_all add: plan_visit_def)
  show "\<forall>p\<in>set (map plan_visit viewable).
             go_to_site p \<and> LDAR_mins p = 0 \<and> remaining_mins p = 0"
    by (auto simp: plan_visit_def)
qed

theorem start_day_without_weather_witness:
  "\<not> consider_weather (demo_schedule (3 / 10) False) \<and>
   calc_viewable_sites demo_library (demo_schedule (3 / 10) False) [site_A, site_B, site_C] = Inr [site_A, site_C] \<and>
   snd (start_day demo_library (demo_schedule (3 / 10) False) [site_A, site_B, site_C]) =
     Inr [plan_visit site_A, plan_visit site_C]"
proof -
  have nw: "\<not> consider_weather (demo_schedule (3 / 10) False)"
    by (simp add: demo_schedule_def)
  have cv: "calc_viewable_sites demo_library (demo_schedule (3 / 10) False) [site_A, site_B, site_C] = Inr [site_A, site_C]"
    by (rule demo_viewable)
  have looks: "\<forall>s\<in>set [site_A, site_C].
      \<exists>c. cloud_lookup demo_library (demo_schedule (3 / 10) False) s = Inr c"
    using demo_cloud_lookup by blast
  have "snd (start_day demo_library (demo_schedule (3 / 10) False) [site_A, site_B, site_C]) =
     Inr (map plan_visit [site_A, site_C])"
    using start_day_without_weather [OF nw cv] looks by blast
  then show ?thesis
    using nw cv by simp
qed

text \<open>
  Claim C8. With \<^verbatim>\<open>consider_weather\<close> false and a viewable site, \<^verbatim>\<open>start_day\<close> is the run of
  \<^verbatim>\<open>assess_weather\<close> over the viewable sites in order, each on the state the one before left:
  its exception is the exception of the call, its final state (the generator included) is the
  state after the call, and its signals are dropped. Every call of \<^verbatim>\<open>assess_weather\<close> that
  returns has read the cell and left the generator after one shuffle and one choice.
\<close>

theorem start_day_evaluates_weather:
  assumes "\<not> consider_weather S"
    and "calc_viewable_sites L S site_pool = Inr viewable"
    and "viewable \<noteq> []"
  shows "start_day L S site_pool =
           (case assess_each L (S\<lparr>current_date := (current_date S)\<lparr>hour := 1\<rparr>\<rparr>) viewable of
              (S', Inl e) \<Rightarrow> (S', Inl e)
            | (S', Inr signals) \<Rightarrow> (S', Inr (map plan_visit viewable)))
         \<and> (\<forall>S0 s signals S'. assess_weather L S0 s = Inr (signals, S') \<longrightarrow>
               (\<exists>c. cloud_lookup L S0 s = Inr c \<and>
                    S' = S0\<lparr>rng := after_draws L (rng S0) (py_round (c * 100))\<rparr>))"
proof
  have nw: "\<not> consider_weather (S\<lparr>current_date := (current_date S)\<lparr>hour := 1\<rparr>\<rparr>)"
    using assms(1) by simp
  show "start_day L S site_pool =
           (case assess_each L (S\<lparr>current_date := (current_date S)\<lparr>hour := 1\<rparr>\<rparr>) viewable of
              (S', Inl e) \<Rightarrow> (S', Inl e)
            | (S', Inr signals) \<Rightarrow> (S', Inr (map plan_visit viewable)))"
    using assms(3) visit_sites_from_empty [OF nw, of L viewable]
    by (simp add: start_day_unfold [OF assms(2)])
next
  show "\<forall>S0 s signals S'. assess_weather L S0 s = Inr (signals, S') \<longrightarrow>
               (\<exists>c. cloud_lookup L S0 s = Inr c \<and>
                    S' = S0\<lparr>rng := after_draws L (rng S0) (py_round (c * 100))\<rparr>)"
  proof (intro allI impI)
    fix S0 s signals S'
    assume "assess_weather L S0 s = Inr (signals, S')"
    with assess_weather_cases [of L S0 s] show
      "\<exists>c. cloud_lookup L S0 s = Inr c \<and> S' = S0\<lparr>rng := after_draws L (rng S0) (py_round (c * 100))\<rparr>"
      by auto
  qed
qed

theorem start_day_evaluates_weather_witness:
  "\<not> consider_weather (demo_schedule (3 / 10) False) \<and>
   calc_viewable_sites demo_library (demo_schedule (3 / 10) False) [site_A, site_B, site_C] = Inr [site_A, site_C] \<and>
   rng (demo_schedule (3 / 10) False) = 7 \<and>
   rng (fst (start_day demo_library (demo_schedule (3 / 10) False) [site_A, site_B, site_C])) = 11 \<and>
   snd (start_day demo_library (demo_schedule (3 / 10) False) [site_A, site_B, site_C]) =
     Inr [plan_visit site_A, plan_visit site_C]"
proof -
  let ?D = "demo_schedule (3 / 10) False"
  let ?S1 = "?D\<lparr>current_date := (current_date ?D)\<lparr>hour := 1\<rparr>\<rparr>"
  have nw: "\<not> consider_weather ?D"
    by (simp add: demo_schedule_def)
  have cv: "calc_viewable_sites demo_library ?D [site_A, site_B, site_C] = Inr [site_A, site_C]"
    by (rule demo_viewable)
  have r0: "rng ?D = 7" by (simp add: demo_schedule_def)
  have look: "cloud_lookup demo_library (S\<lparr>rng := r\<rparr>) s = cloud_lookup demo_library S s" for S r s
    by (simp add: cloud_lookup_def)
  have l1: "cloud_lookup demo_library ?S1 s = Inr (3 / 10)" for s
    using demo_cloud_lookup [of "3 / 10" False s] by (simp add: cloud_lookup_def)
  obtain dlA where a: "assess_weather demo_library ?S1 site_A =
      Inr ((dlA, cloud_signal (fst (random_shuffle demo_library (rng ?S1) (indicator_array (py_round (3 / 10 * 100)))))
                 (fst (random_choice demo_library (snd (random_shuffle demo_library (rng ?S1) (indicator_array (py_round (3 / 10 * 100)))))
                        (length (fst (random_shuffle demo_library (rng ?S1) (indicator_array (py_round (3 / 10 * 100))))))))),
           ?S1\<lparr>rng := 9\<rparr>)"
    using assess_weather_cloud [OF l1 [of site_A]] by (auto simp: demo_after_draws r0)
  let ?S2 = "?S1\<lparr>rng := 9\<rparr>"
  have l2: "cloud_lookup demo_library ?S2 s = Inr (3 / 10)" for s
    using l1 [of s] by (simp add: cloud_lookup_def)
  obtain dlC where c: "assess_weather demo_library ?S2 site_C =
      Inr ((dlC, cloud_signal (fst (random_shuffle demo_library (rng ?S2) (indicator_array (py_round (3 / 10 * 100)))))
                 (fst (random_choice demo_library (snd (random_shuffle demo_library (rng ?S2) (indicator_array (py_round (3 / 10 * 100)))))
                        (length (fst (random_shuffle demo_library (rng ?S2) (indicator_array (py_round (3 / 10 * 100))))))))),
           ?S2\<lparr>rng := 11\<rparr>)"
    using assess_weather_cloud [OF l2 [of site_C]] by (auto simp: demo_after_draws)
  have "\<exists>signals. assess_each demo_library ?S1 [site_A, site_C] = (?S1\<lparr>rng := 11\<rparr>, Inr signals)"
    using a c by simp
  then obtain signals where
    ae: "assess_each demo_library ?S1 [site_A, site_C] = (?S1\<lparr>rng := 11\<rparr>, Inr signals)" ..
  have sd: "start_day demo_library ?D [site_A, site_B, site_C] =
      (?S1\<lparr>rng := 11\<rparr>, Inr (map plan_visit [site_A, site_C]))"
    using start_day_evaluates_weather [OF nw cv] ae by simp
  show ?thesis
    using nw cv r0 by (simp add: sd)
qed

text \<open>
  Claim C9. After \<^verbatim>\<open>start_day\<close>, \<^verbatim>\<open>worked_today\<close> is false when \<^verbatim>\<open>calc_viewable_sites\<close> returned
  the empty list and is what it was otherwise; \<^verbatim>\<open>assess_weather\<close>, \<^verbatim>\<open>update_schedule\<close> and
  \<^verbatim>\<open>end_day\<close> leave it as it was and \<^verbatim>\<open>__init__\<close> leaves it unassigned, so that no operation
  makes it true.
\<close>

theorem worked_today_only_cleared:
  "worked_today (fst (start_day L S site_pool)) =
     (if calc_viewable_sites L S site_pool = Inr [] then Some False else worked_today S)
   \<and> (\<forall>signals S'. assess_weather L S s = Inr (signals, S') \<longrightarrow> worked_today S' = worked_today S)
   \<and> (\<forall>S'. update_schedule S work_mins = Inr S' \<longrightarrow> worked_today S' = worked_today S)
   \<and> worked_today (end_day S site_pool itinerary) = worked_today S
   \<and> (\<forall>S0. init_schedule L A = Inr S0 \<longrightarrow> worked_today S0 = None)"
proof (intro conjI)
  show "worked_today (fst (start_day L S site_pool)) =
     (if calc_viewable_sites L S site_pool = Inr [] then Some False else worked_today S)"
  proof (cases "calc_viewable_sites L S site_pool")
    case (Inl e)
    then show ?thesis by (simp add: start_day_error)
  next
    case (Inr viewable)
    show ?thesis
    proof (cases "viewable = []")
      case True
      with Inr show ?thesis by (simp add: start_day_unfold [OF Inr])
    next
      case False
      obtain S' res where
        vs: "visit_sites L (S\<lparr>current_date := (current_date S)\<lparr>hour := 1\<rparr>\<rparr>) viewable [] = (S', res)"
        by (cases "visit_sites L (S\<lparr>current_date := (current_date S)\<lparr>hour := 1\<rparr>\<rparr>) viewable []")
      from vs visit_sites_frame [OF vs] False Inr show ?thesis
        by (simp add: start_day_unfold [OF Inr])
    qed
  qed
  show "\<forall>signals S'. assess_weather L S s = Inr (signals, S') \<longrightarrow> worked_today S' = worked_today S"
    using assess_weather_cases [of L S s] by auto
  show "\<forall>S'. update_schedule S work_mins = Inr S' \<longrightarrow> worked_today S' = worked_today S"
    by (auto simp: update_schedule_def split: sum.splits)
  show "worked_today (end_day S site_pool itinerary) = worked_today S"
    by (simp add: end_day_def)
  show "\<forall>S0. init_schedule L A = Inr S0 \<longrightarrow> worked_today S0 = None"
    by (auto simp: init_schedule_def Let_def split: sum.splits prod.splits)
qed

theorem worked_today_only_cleared_witness:
  "calc_viewable_sites demo_library (demo_schedule 0 False) [site_B] = Inr [] \<and>
   worked_today (demo_schedule 0 False) = None \<and>
   worked_today (fst (start_day demo_library (demo_schedule 0 False) [site_B])) = Some False \<and>
   calc_viewable_sites demo_library (demo_schedule 0 False) [site_A] = Inr [site_A] \<and>
   worked_today (fst (start_day demo_library (demo_schedule 0 False) [site_A])) = None \<and>
   worked_today (end_day (demo_schedule 0 False) [site_A] []) = None"
proof -
  have wt: "worked_today (demo_schedule 0 False) = None"
    by (simp add: demo_schedule_def)
  show ?thesis
    using wt
      worked_today_only_cleared [of demo_library "demo_schedule 0 False" "[site_B]" site_A 0 "[]" "demo_args 0 False"]
      worked_today_only_cleared [of demo_library "demo_schedule 0 False" "[site_A]" site_A 0 "[]" "demo_args 0 False"]
    by (simp add: demo_viewable)
qed

text \<open>
  Claim C7. Every call of \<^verbatim>\<open>start_day\<close>, also one that raises, leaves the hour of the clock
  at 1, while the working window that \<^verbatim>\<open>__init__\<close> records starts at hour 0 and ends at
  hour 23: the hour after the call is not the start of the window.
\<close>

theorem start_day_sets_hour_one:
  "hour (current_date (fst (start_day L S site_pool))) = 1
   \<and> (\<forall>S0. init_schedule L A = Inr S0 \<longrightarrow> start_hour S0 = 0 \<and> end_hour S0 = 23 \<and> work_hours S0 = 24)"
proof
  show "hour (current_date (fst (start_day L S site_pool))) = 1"
  proof (cases "calc_viewable_sites L S site_pool")
    case (Inl e)
    then show ?thesis by (simp add: start_day_error)
  next
    case (Inr viewable)
    obtain S' res where
      vs: "visit_sites L (S\<lparr>current_date := (current_date S)\<lparr>hour := 1\<rparr>\<rparr>) viewable [] = (S', res)"
      by (cases "visit_sites L (S\<lparr>current_date := (current_date S)\<lparr>hour := 1\<rparr>\<rparr>) viewable []")
    from vs visit_sites_frame [OF vs] show ?thesis
      by (simp add: start_day_unfold [OF Inr])
  qed
  show "\<forall>S0. init_schedule L A = Inr S0 \<longrightarrow> start_hour S0 = 0 \<and> end_hour S0 = 23 \<and> work_hours S0 = 24"
    by (auto simp: init_schedule_def Let_def split: sum.splits prod.splits)
qed

theorem start_day_sets_hour_one_witness:
  "init_schedule demo_library (demo_args 0 False) = Inr (demo_schedule 0 False) \<and>
   start_hour (demo_schedule 0 False) = 0 \<and>
   hour (current_date (fst (start_day demo_library (demo_schedule 0 False) [site_A]))) = 1 \<and>
   hour (current_date (fst (start_day demo_library (demo_schedule 0 False) [site_A]))) \<noteq>
     start_hour (demo_schedule 0 False)"
proof -
  have i: "init_schedule demo_library (demo_args 0 False) = Inr (demo_schedule 0 False)"
    by (simp add: init_schedule_def get_orbit_predictor_def get_orbit_path_def read_TLEs_def
        rstrip_def is_space_def getitem_def demo_args_def demo_library_def demo_schedule_def
        demo_day_def Let_def)
  show ?thesis
    using i start_day_sets_hour_one [of demo_library "demo_schedule 0 False" "[site_A]" "demo_args 0 False"]
    by simp
qed

subsection \<open>Initialisation\<close>

lemma find_label_absent: "label \<notin> set TLEs \<Longrightarrow> find_label TLEs label i = i + length TLEs"
  by (induction TLEs arbitrary: i) auto

text \<open>
  Claim C6. When no stripped line of the catalogue equals the configured label, the read of
  the line after the last one raises IndexError in \<^verbatim>\<open>get_orbit_predictor\<close>, and \<^verbatim>\<open>__init__\<close>
  raises it in turn: no Schedule object exists on which a day could be started.
\<close>

theorem unknown_satellite_fails:
  assumes "TLE_label A \<notin> set (map rstrip (TLE_file_lines A))"
  shows "get_orbit_predictor L (TLE_file_lines A) (TLE_label A) = Inl IndexError
       \<and> init_schedule L A = Inl IndexError"
proof -
  have "find_label (read_TLEs (TLE_file_lines A)) (TLE_label A) 0 = length (read_TLEs (TLE_file_lines A))"
    using assms find_label_absent [of "TLE_label A" "read_TLEs (TLE_file_lines A)" 0]
    by (simp add: read_TLEs_def)
  then have g: "get_orbit_predictor L (TLE_file_lines A) (TLE_label A) = Inl IndexError"
    by (simp add: get_orbit_predictor_def Let_def getitem_def)
  then show ?thesis by (simp add: init_schedule_def)
qed

theorem unknown_satellite_fails_witness:
  "TLE_label ((demo_args 0 False)\<lparr>TLE_label := ''SAT-Z''\<rparr>) \<notin>
      set (map rstrip (TLE_file_lines ((demo_args 0 False)\<lparr>TLE_label := ''SAT-Z''\<rparr>))) \<and>
   init_schedule demo_library ((demo_args 0 False)\<lparr>TLE_label := ''SAT-Z''\<rparr>) = Inl IndexError \<and>
   init_schedule demo_library (demo_args 0 False) = Inr (demo_schedule 0 False)"
proof -
  have a: "TLE_label ((demo_args 0 False)\<lparr>TLE_label := ''SAT-Z''\<rparr>) \<notin>
      set (map rstrip (TLE_file_lines ((demo_args 0 False)\<lparr>TLE_label := ''SAT-Z''\<rparr>)))"
    by (simp add: demo_args_def rstrip_def is_space_def)
  have i: "init_schedule demo_library (demo_args 0 False) = Inr (demo_schedule 0 False)"
    by (simp add: init_schedule_def get_orbit_predictor_def get_orbit_path_def read_TLEs_def
        rstrip_def is_space_def getitem_def demo_args_def demo_library_def demo_schedule_def
        demo_day_def Let_def)
  show ?thesis
    using a i unknown_satellite_fails [OF a, of demo_library] by simp
qed

subsection \<open>The company's Schedule\<close>

text \<open>
  Claim C10. \<^verbatim>\<open>get_due_sites\<close> and \<^verbatim>\<open>get_crew_site_list\<close> return the site pool they are given
  and \<^verbatim>\<open>get_working_crews\<close> returns the number of crews it is given, whatever the pool.
\<close>

theorem company_schedule_pass_through:
  "get_due_sites site_pool = site_pool \<and>
   get_crew_site_list site_pool crew_num n_crews crews = site_pool \<and>
   get_working_crews site_pool n_crews = n_crews"
  by (simp add: get_due_sites_def get_crew_site_list_def get_working_crews_def)

end
